theory Spec2Isabelle
  imports Main "HOL-Library.Multiset" "HOL-Library.Char_ord" "HOL-Library.List_Lexorder"
begin

section \<open>Clock readings and their two text formats\<close>

text \<open>
  \<^verbatim>\<open>database.py\<close> reads two clocks. The SQL engine evaluates \<^verbatim>\<open>CURRENT_TIMESTAMP\<close>
  (UTC, text \<^verbatim>\<open>YYYY-MM-DD HH:MM:SS\<close>, one value per statement); the Python code calls
  \<^verbatim>\<open>datetime.now().isoformat()\<close> (local time, \<^verbatim>\<open>YYYY-MM-DDTHH:MM:SS\<close> followed by
  \<^verbatim>\<open>.ffffff\<close> when the microsecond is not zero). A reading is a record of its fields; the
  fields of a real reading are in range (year below 10000, month at most 12, ...), where the
  fixed-width digits below are the zero-padded decimal numbers both formats print.
\<close>

record datetime =
  year :: nat
  month :: nat
  day :: nat
  hour :: nat
  minute :: nat
  second :: nat
  microsecond :: nat

definition digit :: "nat \<Rightarrow> char" where
  "digit n = ''0123456789'' ! (n mod 10)"

definition dec2 :: "nat \<Rightarrow> string" where
  "dec2 n = [digit (n div 10), digit n]"

definition dec4 :: "nat \<Rightarrow> string" where
  "dec4 n = [digit (n div 1000), digit (n div 100), digit (n div 10), digit n]"

definition dec6 :: "nat \<Rightarrow> string" where
  "dec6 n = [digit (n div 100000), digit (n div 10000), digit (n div 1000),
             digit (n div 100), digit (n div 10), digit n]"

definition date_text :: "datetime \<Rightarrow> string" where
  "date_text t = dec4 (year t) @ ''-'' @ dec2 (month t) @ ''-'' @ dec2 (day t)"

definition time_text :: "datetime \<Rightarrow> string" where
  "time_text t = dec2 (hour t) @ '':'' @ dec2 (minute t) @ '':'' @ dec2 (second t)"

definition current_timestamp :: "datetime \<Rightarrow> string" where
  \<comment> \<open>the value of SQL \<^verbatim>\<open>CURRENT_TIMESTAMP\<close> when the engine clock reads \<open>t\<close>\<close>
  "current_timestamp t = date_text t @ '' '' @ time_text t"

definition isoformat :: "datetime \<Rightarrow> string" where
  \<comment> \<open>\<^verbatim>\<open>datetime.isoformat()\<close>\<close>
  "isoformat t = date_text t @ ''T'' @ time_text t @
     (if microsecond t = 0 then [] else ''.'' @ dec6 (microsecond t))"

section \<open>Metadata documents and the JSON codec\<close>

text \<open>
  A metadata document is a Python \<^verbatim>\<open>dict\<close> with string keys whose values are JSON values;
  a dict is kept as the list of its items in insertion order. Strings are lists of 8-bit
  characters (code points up to 255), and floating-point numbers are outside the modelled
  fragment. \<open>json_dumps\<close> is \<^verbatim>\<open>json.dumps\<close> with its default arguments (separators
  \<^verbatim>\<open>", "\<close> and \<^verbatim>\<open>": "\<close>, \<^verbatim>\<open>ensure_ascii=True\<close>); \<open>json_loads\<close> is \<^verbatim>\<open>json.loads\<close> on the
  same fragment: a text with a float or a code point above 255 is refused.
\<close>

datatype json =
    JNull
  | JBool bool
  | JInt int
  | JString string
  | JArray "json list"
  | JObject "(string \<times> json) list"

type_synonym pydict = "(string \<times> json) list"

definition dquote :: char where
  "dquote = CHR 0x22"

definition backslash :: char where
  "backslash = CHR 0x5C"

definition hex_digit :: "nat \<Rightarrow> char" where
  "hex_digit n = ''0123456789abcdef'' ! (n mod 16)"

definition escape_char :: "char \<Rightarrow> string" where
  \<comment> \<open>\<^verbatim>\<open>ESCAPE_ASCII\<close> / \<^verbatim>\<open>ESCAPE_DCT\<close> of \<^verbatim>\<open>json.encoder\<close>\<close>
  "escape_char c =
     (if c = dquote then [backslash, dquote]
      else if c = backslash then [backslash, backslash]
      else if c = CHR 0x0A then [backslash, CHR ''n'']
      else if c = CHR 0x0D then [backslash, CHR ''r'']
      else if c = CHR 0x09 then [backslash, CHR ''t'']
      else if c = CHR 0x08 then [backslash, CHR ''b'']
      else if c = CHR 0x0C then [backslash, CHR ''f'']
      else if (of_char c :: nat) < 32 \<or> 126 < (of_char c :: nat)
        then [backslash, CHR ''u'', CHR ''0'', CHR ''0'',
              hex_digit (of_char c div 16), hex_digit (of_char c)]
      else [c])"

definition json_quote :: "string \<Rightarrow> string" where
  "json_quote s = dquote # concat (map escape_char s) @ [dquote]"

function show_nat :: "nat \<Rightarrow> string" where
  "show_nat n = (if n < 10 then [digit n] else show_nat (n div 10) @ [digit n])"
  by pat_completeness auto
termination
  by (relation "measure id") auto

declare show_nat.simps [simp del]

definition show_int :: "int \<Rightarrow> string" where
  "show_int i = (if i < 0 then CHR ''-'' # show_nat (nat (- i)) else show_nat (nat i))"

fun join_with :: "string \<Rightarrow> string list \<Rightarrow> string" where
  "join_with sep [] = []"
| "join_with sep [x] = x"
| "join_with sep (x # y # ys) = x @ sep @ join_with sep (y # ys)"

fun json_dumps :: "json \<Rightarrow> string" where
  "json_dumps JNull = ''null''"
| "json_dumps (JBool b) = (if b then ''true'' else ''false'')"
| "json_dumps (JInt i) = show_int i"
| "json_dumps (JString s) = json_quote s"
| "json_dumps (JArray vs) = ''['' @ join_with '', '' (map json_dumps vs) @ '']''"
| "json_dumps (JObject kvs) =
     ''{'' @ join_with '', '' (map (\<lambda>(k, v). json_quote k @ '': '' @ json_dumps v) kvs) @ ''}''"

declare json_dumps.simps [simp del]

text \<open>Decoding. A dict built from parsed items keeps the first position and the last value
  of a repeated key, as Python's \<^verbatim>\<open>dict\<close> does.\<close>

fun dict_set :: "pydict \<Rightarrow> string \<Rightarrow> json \<Rightarrow> pydict" where
  "dict_set [] k v = [(k, v)]"
| "dict_set ((k', v') # d) k v =
     (if k' = k then (k', v) # d else (k', v') # dict_set d k v)"

definition dict_of_pairs :: "(string \<times> json) list \<Rightarrow> pydict" where
  "dict_of_pairs ps = foldl (\<lambda>d (k, v). dict_set d k v) [] ps"

definition is_ws :: "char \<Rightarrow> bool" where
  "is_ws c = (c = CHR '' '' \<or> c = CHR 0x09 \<or> c = CHR 0x0A \<or> c = CHR 0x0D)"

definition skip_ws :: "string \<Rightarrow> string" where
  "skip_ws s = dropWhile is_ws s"

definition is_digit :: "char \<Rightarrow> bool" where
  "is_digit c = (48 \<le> (of_char c :: nat) \<and> (of_char c :: nat) \<le> 57)"

definition digit_val :: "char \<Rightarrow> nat" where
  "digit_val c = of_char c - 48"

definition hex_val :: "char \<Rightarrow> nat option" where
  "hex_val c =
     (let n = (of_char c :: nat) in
      if 48 \<le> n \<and> n \<le> 57 then Some (n - 48)
      else if 97 \<le> n \<and> n \<le> 102 then Some (n - 87)
      else if 65 \<le> n \<and> n \<le> 70 then Some (n - 55)
      else None)"

definition unescape :: "char \<Rightarrow> char option" where
  \<comment> \<open>\<^verbatim>\<open>BACKSLASH\<close> of \<^verbatim>\<open>json.decoder\<close>\<close>
  "unescape e =
     (if e = dquote then Some dquote
      else if e = backslash then Some backslash
      else if e = CHR ''/'' then Some CHR ''/''
      else if e = CHR ''b'' then Some (CHR 0x08)
      else if e = CHR ''f'' then Some (CHR 0x0C)
      else if e = CHR ''n'' then Some (CHR 0x0A)
      else if e = CHR ''r'' then Some (CHR 0x0D)
      else if e = CHR ''t'' then Some (CHR 0x09)
      else None)"

definition unicode_escape :: "char \<Rightarrow> char \<Rightarrow> char \<Rightarrow> char \<Rightarrow> char option" where
  \<comment> \<open>the character of \<^verbatim>\<open>\uXXXX\<close>; code points above 255 do not fit the 8-bit characters
      of this model and are refused\<close>
  "unicode_escape a b c d =
     (case (hex_val a, hex_val b, hex_val c, hex_val d) of
        (Some h1, Some h2, Some h3, Some h4) \<Rightarrow>
          (if h1 = 0 \<and> h2 = 0 then Some (char_of (16 * h3 + h4)) else None)
      | _ \<Rightarrow> None)"

fun parse_string :: "string \<Rightarrow> (string \<times> string) option" where
  \<comment> \<open>\<^verbatim>\<open>py_scanstring\<close> (strict), called after the opening quote: the string and the rest\<close>
  "parse_string [] = None"
| "parse_string (c # cs) =
     (if c = dquote then Some ([], cs)
      else if c = backslash then
        (case cs of
           [] \<Rightarrow> None
         | e # r \<Rightarrow>
             if e = CHR ''u'' then
               (case r of
                  a # b # x # y # r' \<Rightarrow>
                    (case unicode_escape a b x y of
                       None \<Rightarrow> None
                     | Some ch \<Rightarrow>
                         (case parse_string r' of
                            None \<Rightarrow> None
                          | Some (s, rest) \<Rightarrow> Some (ch # s, rest)))
                | _ \<Rightarrow> None)
             else
               (case unescape e of
                  None \<Rightarrow> None
                | Some ch \<Rightarrow>
                    (case parse_string r of
                       None \<Rightarrow> None
                     | Some (s, rest) \<Rightarrow> Some (ch # s, rest))))
      else if (of_char c :: nat) < 32 then None
      else
        (case parse_string cs of
           None \<Rightarrow> None
         | Some (s, rest) \<Rightarrow> Some (c # s, rest)))"

definition read_nat :: "string \<Rightarrow> nat" where
  "read_nat ds = foldl (\<lambda>a c. 10 * a + digit_val c) 0 ds"

definition starts_fraction :: "string \<Rightarrow> bool" where
  \<comment> \<open>what follows the integer part makes the number a float\<close>
  "starts_fraction s =
     (case s of [] \<Rightarrow> False | d # _ \<Rightarrow> d = CHR ''.'' \<or> d = CHR ''e'' \<or> d = CHR ''E'')"

definition parse_nat :: "string \<Rightarrow> (nat \<times> string) option" where
  \<comment> \<open>the integer part of \<^verbatim>\<open>NUMBER_RE\<close>: \<^verbatim>\<open>0|[1-9]\d*\<close>; a fraction or an exponent would make
      the number a float, which is outside the modelled fragment\<close>
  "parse_nat s =
     (case s of
        [] \<Rightarrow> None
      | c # r \<Rightarrow>
          if \<not> is_digit c then None
          else
            (let ds = (if c = CHR ''0'' then [c] else c # takeWhile is_digit r);
                 rest = (if c = CHR ''0'' then r else dropWhile is_digit r)
             in if starts_fraction rest then None else Some (read_nat ds, rest)))"

definition parse_number :: "string \<Rightarrow> (json \<times> string) option" where
  "parse_number s =
     (case s of
        [] \<Rightarrow> None
      | c # r \<Rightarrow>
          if c = CHR ''-'' then
            (case parse_nat r of None \<Rightarrow> None | Some (n, rest) \<Rightarrow> Some (JInt (- int n), rest))
          else
            (case parse_nat s of None \<Rightarrow> None | Some (n, rest) \<Rightarrow> Some (JInt (int n), rest)))"

text \<open>The recursive scanner of \<^verbatim>\<open>json.scanner\<close> / \<^verbatim>\<open>json.decoder\<close>. The first argument
  bounds the depth of the calls; \<open>json_loads\<close> starts it above the length of the text, which
  is enough for every text \<open>json_dumps\<close> prints (lemma \<open>parse_value_dumps\<close>).\<close>

fun parse_value :: "nat \<Rightarrow> string \<Rightarrow> (json \<times> string) option"
  and parse_elements :: "nat \<Rightarrow> string \<Rightarrow> (json list \<times> string) option"
  and parse_members :: "nat \<Rightarrow> string \<Rightarrow> ((string \<times> json) list \<times> string) option"
where
  "parse_value 0 s = None"
| "parse_value (Suc n) s =
     (case s of
        [] \<Rightarrow> None
      | c # r \<Rightarrow>
          if c = dquote then
            (case parse_string r of None \<Rightarrow> None | Some (x, rest) \<Rightarrow> Some (JString x, rest))
          else if c = CHR ''{'' then
            (case skip_ws r of
               [] \<Rightarrow> None
             | c' # r' \<Rightarrow>
                 if c' = CHR ''}'' then Some (JObject [], r')
                 else
                   (case parse_members n (c' # r') of
                      None \<Rightarrow> None
                    | Some (ps, rest) \<Rightarrow> Some (JObject (dict_of_pairs ps), rest)))
          else if c = CHR ''['' then
            (case skip_ws r of
               [] \<Rightarrow> None
             | c' # r' \<Rightarrow>
                 if c' = CHR '']'' then Some (JArray [], r')
                 else
                   (case parse_elements n (c' # r') of
                      None \<Rightarrow> None
                    | Some (vs, rest) \<Rightarrow> Some (JArray vs, rest)))
          else if take 4 s = ''null'' then Some (JNull, drop 4 s)
          else if take 4 s = ''true'' then Some (JBool True, drop 4 s)
          else if take 5 s = ''false'' then Some (JBool False, drop 5 s)
          else parse_number s)"
| "parse_elements 0 s = None"
| "parse_elements (Suc n) s =
     (case parse_value n s of
        None \<Rightarrow> None
      | Some (v, r) \<Rightarrow>
          (case skip_ws r of
             [] \<Rightarrow> None
           | c # r' \<Rightarrow>
               if c = CHR '','' then
                 (case parse_elements n (skip_ws r') of
                    None \<Rightarrow> None
                  | Some (vs, rest) \<Rightarrow> Some (v # vs, rest))
               else if c = CHR '']'' then Some ([v], r')
               else None))"
| "parse_members 0 s = None"
| "parse_members (Suc n) s =
     (case s of
        [] \<Rightarrow> None
      | q # r \<Rightarrow>
          if q \<noteq> dquote then None
          else
            (case parse_string r of
               None \<Rightarrow> None
             | Some (k, r1) \<Rightarrow>
                 (case skip_ws r1 of
                    [] \<Rightarrow> None
                  | c1 # r2 \<Rightarrow>
                      if c1 \<noteq> CHR '':'' then None
                      else
                        (case parse_value n (skip_ws r2) of
                           None \<Rightarrow> None
                         | Some (v, r3) \<Rightarrow>
                             (case skip_ws r3 of
                                [] \<Rightarrow> None
                              | c3 # r4 \<Rightarrow>
                                  if c3 = CHR '','' then
                                    (case parse_members n (skip_ws r4) of
                                       None \<Rightarrow> None
                                     | Some (ps, rest) \<Rightarrow> Some ((k, v) # ps, rest))
                                  else if c3 = CHR ''}'' then Some ([(k, v)], r4)
                                  else None)))))"

datatype error = IntegrityError | OperationalError | OverflowError | JSONDecodeError

definition json_loads :: "string \<Rightarrow> error + json" where
  "json_loads s =
     (case parse_value (Suc (length s)) (skip_ws s) of
        None \<Rightarrow> Inl JSONDecodeError
      | Some (v, rest) \<Rightarrow> if skip_ws rest = [] then Inr v else Inl JSONDecodeError)"

section \<open>The stored state\<close>

text \<open>
  The two tables of \<^verbatim>\<open>_init_db\<close>, rows in the order they were inserted, and the engine's
  \<^verbatim>\<open>sqlite_sequence\<close> entry for \<^verbatim>\<open>messages\<close> (the largest row id \<^verbatim>\<open>AUTOINCREMENT\<close> has
  handed out). Timestamps are the texts the engine stored, which it compares byte by byte;
  \<^verbatim>\<open>metadata TEXT\<close> is nullable.
\<close>

record conversation_row =
  c_id :: string
  c_title :: string
  c_created_at :: string
  c_updated_at :: string
  c_metadata :: "string option"

record message_row =
  m_id :: int
  m_conversation_id :: string
  m_role :: string
  m_content :: string
  m_timestamp :: string
  m_metadata :: "string option"

record database =
  conversations :: "conversation_row list"
  messages :: "message_row list"
  sqlite_sequence :: int

definition empty_db :: database where
  \<comment> \<open>a new file after \<^verbatim>\<open>_init_db\<close>\<close>
  "empty_db = \<lparr>conversations = [], messages = [], sqlite_sequence = 0\<rparr>"

definition conversation_ids :: "database \<Rightarrow> string set" where
  "conversation_ids db = c_id ` set (conversations db)"

definition orphan :: "database \<Rightarrow> message_row \<Rightarrow> bool" where
  \<comment> \<open>a message whose \<^verbatim>\<open>conversation_id\<close> matches no Conversation row\<close>
  "orphan db m = (m_conversation_id m \<notin> conversation_ids db)"

section \<open>Connections, transactions and statements\<close>

text \<open>
  \<^verbatim>\<open>sqlite3.connect(self.db_path)\<close> opens a connection with the engine's defaults: foreign-key
  enforcement is off until \<^verbatim>\<open>PRAGMA foreign_keys = ON\<close> is run on that connection, and
  \<^verbatim>\<open>database.py\<close> never runs it. A connection holds the committed state and the state its open
  transaction works on. \<^verbatim>\<open>with sqlite3.connect(...) as conn:\<close> commits when its body returns
  and rolls back when the body raises.

  Every call into the engine may raise \<^verbatim>\<open>sqlite3.OperationalError\<close> (disk, lock); the
  argument \<open>fault\<close> of an operation is the index of the engine call that does so, \<open>None\<close>
  when the engine is healthy.
\<close>

record connection =
  foreign_keys :: bool
  committed :: database
  working :: database

definition sqlite3_connect :: "database \<Rightarrow> connection" where
  "sqlite3_connect db = \<lparr>foreign_keys = False, committed = db, working = db\<rparr>"

definition with_connection ::
  "database \<Rightarrow> (connection \<Rightarrow> (error + 'a) \<times> connection) \<Rightarrow> (error + 'a) \<times> database" where
  "with_connection db body =
     (case body (sqlite3_connect db) of
        (Inl e, conn) \<Rightarrow> (Inl e, committed conn)
      | (Inr r, conn) \<Rightarrow> (Inr r, working conn))"

definition commit :: "bool \<Rightarrow> connection \<Rightarrow> error + connection" where
  "commit fails conn =
     (if fails then Inl OperationalError else Inr (conn\<lparr>committed := working conn\<rparr>))"

definition int64_max :: int where
  "int64_max = 9223372036854775807"

definition exec_insert_conversation ::
  "bool \<Rightarrow> string \<Rightarrow> string \<Rightarrow> string \<Rightarrow> string \<Rightarrow> connection \<Rightarrow> error + connection" where
  \<comment> \<open>\<^verbatim>\<open>INSERT INTO conversations (id, title, metadata) VALUES (?, ?, ?)\<close>; both timestamp
      columns take \<^verbatim>\<open>DEFAULT CURRENT_TIMESTAMP\<close>, one value within the statement; the
      primary key refuses a second row with the same id\<close>
  "exec_insert_conversation fails now cid title md conn =
     (if fails then Inl OperationalError
      else if cid \<in> conversation_ids (working conn) then Inl IntegrityError
      else Inr (conn\<lparr>working := (working conn)\<lparr>conversations :=
             conversations (working conn) @
               [\<lparr>c_id = cid, c_title = title, c_created_at = now, c_updated_at = now,
                 c_metadata = Some md\<rparr>]\<rparr>\<rparr>))"

definition exec_select_conversation ::
  "bool \<Rightarrow> string \<Rightarrow> connection \<Rightarrow> error + conversation_row list" where
  \<comment> \<open>\<^verbatim>\<open>SELECT * FROM conversations WHERE id = ?\<close>\<close>
  "exec_select_conversation fails cid conn =
     (if fails then Inl OperationalError
      else Inr (filter (\<lambda>c. c_id c = cid) (conversations (working conn))))"

definition fetchone :: "'a list \<Rightarrow> 'a option" where
  "fetchone rows = (case rows of [] \<Rightarrow> None | r # _ \<Rightarrow> Some r)"

definition message_count :: "database \<Rightarrow> string \<Rightarrow> int" where
  \<comment> \<open>\<^verbatim>\<open>COUNT(m.id)\<close> over the rows joined to one conversation (\<^verbatim>\<open>m.id\<close> is never null)\<close>
  "message_count db cid = int (length (filter (\<lambda>m. m_conversation_id m = cid) (messages db)))"

definition sql_limit :: "int \<Rightarrow> 'a list \<Rightarrow> 'a list" where
  \<comment> \<open>\<^verbatim>\<open>LIMIT n\<close>: a negative \<open>n\<close> means no upper bound\<close>
  "sql_limit n rows = (if n < 0 then rows else take (nat n) rows)"

definition order_by_asc :: "('a \<Rightarrow> string) \<Rightarrow> 'a list \<Rightarrow> 'a list" where
  \<comment> \<open>\<^verbatim>\<open>ORDER BY key ASC\<close> over the rows in the order the engine's scan delivers them\<close>
  "order_by_asc key rows = sort_key key rows"

definition order_by_desc :: "('a \<Rightarrow> string) \<Rightarrow> 'a list \<Rightarrow> 'a list" where
  \<comment> \<open>\<^verbatim>\<open>ORDER BY key DESC\<close>\<close>
  "order_by_desc key rows = rev (sort_key key rows)"

definition exec_select_all ::
  "bool \<Rightarrow> ((conversation_row \<times> int) list \<Rightarrow> (conversation_row \<times> int) list) \<Rightarrow> int \<Rightarrow>
   connection \<Rightarrow> error + (conversation_row \<times> int) list" where
  \<comment> \<open>\<^verbatim>\<open>SELECT c.*, COUNT(m.id) as message_count FROM conversations c
      LEFT JOIN messages m ON c.id = m.conversation_id
      GROUP BY c.id ORDER BY c.updated_at DESC LIMIT ?\<close>:
      one group for each conversation (\<^verbatim>\<open>c.id\<close> is the primary key). The order of rows with
      equal keys is the engine's; \<open>scan\<close> is the order in which it meets the groups. A bound
      parameter outside the 64-bit integers is refused by the driver.\<close>
  "exec_select_all fails scan limit conn =
     (if limit < - int64_max - 1 \<or> int64_max < limit then Inl OverflowError
      else if fails then Inl OperationalError
      else Inr (sql_limit limit (order_by_desc (c_updated_at \<circ> fst)
             (scan (map (\<lambda>c. (c, message_count (working conn) (c_id c)))
                (conversations (working conn)))))))"

definition next_rowid :: "database \<Rightarrow> int" where
  \<comment> \<open>\<^verbatim>\<open>INTEGER PRIMARY KEY AUTOINCREMENT\<close>: one more than the largest id ever handed out
      and the largest id in the table\<close>
  "next_rowid db = fold max (map m_id (messages db)) (max 0 (sqlite_sequence db)) + 1"

definition exec_insert_message ::
  "bool \<Rightarrow> string \<Rightarrow> string \<Rightarrow> string \<Rightarrow> string \<Rightarrow> string \<Rightarrow> connection \<Rightarrow>
   error + (connection \<times> int)" where
  \<comment> \<open>\<^verbatim>\<open>INSERT INTO messages (conversation_id, role, content, metadata) VALUES (?, ?, ?, ?)\<close>
      and \<^verbatim>\<open>cursor.lastrowid\<close>. The engine refuses the insert when the id space is used up,
      and, only with foreign keys enforced, when the parent row is missing.\<close>
  "exec_insert_message fails now cid role content md conn =
     (if fails then Inl OperationalError
      else if int64_max < next_rowid (working conn) then Inl OperationalError
      else if foreign_keys conn \<and> cid \<notin> conversation_ids (working conn) then Inl IntegrityError
      else Inr (conn\<lparr>working := (working conn)\<lparr>
                  messages := messages (working conn) @
                    [\<lparr>m_id = next_rowid (working conn), m_conversation_id = cid, m_role = role,
                      m_content = content, m_timestamp = now, m_metadata = Some md\<rparr>],
                  sqlite_sequence := next_rowid (working conn)\<rparr>\<rparr>,
                next_rowid (working conn)))"

definition exec_touch_conversation ::
  "bool \<Rightarrow> string \<Rightarrow> string \<Rightarrow> connection \<Rightarrow> error + connection" where
  \<comment> \<open>\<^verbatim>\<open>UPDATE conversations SET updated_at = CURRENT_TIMESTAMP WHERE id = ?\<close>\<close>
  "exec_touch_conversation fails now cid conn =
     (if fails then Inl OperationalError
      else Inr (conn\<lparr>working := (working conn)\<lparr>conversations :=
             map (\<lambda>c. if c_id c = cid then c\<lparr>c_updated_at := now\<rparr> else c)
               (conversations (working conn))\<rparr>\<rparr>))"

definition exec_select_messages ::
  "bool \<Rightarrow> (message_row list \<Rightarrow> message_row list) \<Rightarrow> string \<Rightarrow> connection \<Rightarrow>
   error + message_row list" where
  \<comment> \<open>\<^verbatim>\<open>SELECT * FROM messages WHERE conversation_id = ? ORDER BY timestamp ASC\<close>: the sort
      key is the timestamp alone; rows with equal timestamps come in the order \<open>scan\<close>, the
      engine's access path, delivers them\<close>
  "exec_select_messages fails scan cid conn =
     (if fails then Inl OperationalError
      else Inr (order_by_asc m_timestamp
             (scan (filter (\<lambda>m. m_conversation_id m = cid) (messages (working conn))))))"

definition exec_delete_conversation ::
  "bool \<Rightarrow> string \<Rightarrow> connection \<Rightarrow> error + (connection \<times> int)" where
  \<comment> \<open>\<^verbatim>\<open>DELETE FROM conversations WHERE id = ?\<close> and \<^verbatim>\<open>cursor.rowcount\<close>; the clause
      \<^verbatim>\<open>ON DELETE CASCADE\<close> of \<^verbatim>\<open>messages\<close> acts only on a connection that enforces
      foreign keys\<close>
  "exec_delete_conversation fails cid conn =
     (if fails then Inl OperationalError
      else
        (let db = working conn;
             hit = filter (\<lambda>c. c_id c = cid) (conversations db);
             db1 = db\<lparr>conversations := filter (\<lambda>c. c_id c \<noteq> cid) (conversations db)\<rparr>;
             db2 = (if foreign_keys conn \<and> hit \<noteq> []
                    then db1\<lparr>messages := filter (\<lambda>m. m_conversation_id m \<noteq> cid) (messages db1)\<rparr>
                    else db1)
         in Inr (conn\<lparr>working := db2\<rparr>, int (length hit))))"

definition exec_update_title ::
  "bool \<Rightarrow> string \<Rightarrow> string \<Rightarrow> string \<Rightarrow> connection \<Rightarrow> error + (connection \<times> int)" where
  \<comment> \<open>\<^verbatim>\<open>UPDATE conversations SET title = ?, updated_at = CURRENT_TIMESTAMP WHERE id = ?\<close>
      and \<^verbatim>\<open>cursor.rowcount\<close>\<close>
  "exec_update_title fails now title cid conn =
     (if fails then Inl OperationalError
      else Inr (conn\<lparr>working := (working conn)\<lparr>conversations :=
             map (\<lambda>c. if c_id c = cid then c\<lparr>c_title := title, c_updated_at := now\<rparr> else c)
               (conversations (working conn))\<rparr>\<rparr>,
           int (length (filter (\<lambda>c. c_id c = cid) (conversations (working conn))))))"

section \<open>The operations of \<^verbatim>\<open>ConversationDatabase\<close>\<close>

record conversation_dict =
  cd_id :: string
  cd_title :: string
  cd_created_at :: string
  cd_updated_at :: string
  cd_metadata :: json

record conversation_entry =
  ce_id :: string
  ce_title :: string
  ce_created_at :: string
  ce_updated_at :: string
  ce_message_count :: int
  ce_metadata :: json

record message_dict =
  md_id :: int
  md_conversation_id :: string
  md_role :: string
  md_content :: string
  md_timestamp :: string
  md_metadata :: json

definition or_empty :: "pydict option \<Rightarrow> pydict" where
  \<comment> \<open>\<^verbatim>\<open>metadata or {}\<close>: \<^verbatim>\<open>None\<close> and the empty dict are both falsy\<close>
  "or_empty metadata = (case metadata of None \<Rightarrow> [] | Some d \<Rightarrow> if d = [] then [] else d)"

definition load_metadata :: "string option \<Rightarrow> error + json" where
  \<comment> \<open>\<^verbatim>\<open>json.loads(row["metadata"]) if row["metadata"] else {}\<close>\<close>
  "load_metadata md =
     (case md of
        None \<Rightarrow> Inr (JObject [])
      | Some s \<Rightarrow> if s = [] then Inr (JObject []) else json_loads s)"

definition create_conversation ::
  "nat option \<Rightarrow> datetime \<Rightarrow> datetime \<Rightarrow> datetime \<Rightarrow> database \<Rightarrow> string \<Rightarrow> string \<Rightarrow>
   pydict option \<Rightarrow> (error + conversation_dict) \<times> database" where
  \<comment> \<open>\<open>utc\<close> is the engine clock at the \<^verbatim>\<open>INSERT\<close>; \<open>now1\<close> and \<open>now2\<close> are the two readings
      of \<^verbatim>\<open>datetime.now()\<close> in the returned dict\<close>
  "create_conversation fault utc now1 now2 db conversation_id title metadata =
     with_connection db (\<lambda>conn.
       case exec_insert_conversation (fault = Some 0) (current_timestamp utc) conversation_id
              title (json_dumps (JObject (or_empty metadata))) conn of
         Inl e \<Rightarrow> (Inl e, conn)
       | Inr conn1 \<Rightarrow>
           (case commit (fault = Some 1) conn1 of
              Inl e \<Rightarrow> (Inl e, conn1)
            | Inr conn2 \<Rightarrow>
                (Inr \<lparr>cd_id = conversation_id, cd_title = title,
                      cd_created_at = isoformat now1, cd_updated_at = isoformat now2,
                      cd_metadata = JObject (or_empty metadata)\<rparr>, conn2)))"

definition get_conversation ::
  "nat option \<Rightarrow> database \<Rightarrow> string \<Rightarrow> (error + conversation_dict option) \<times> database" where
  "get_conversation fault db conversation_id =
     with_connection db (\<lambda>conn.
       case exec_select_conversation (fault = Some 0) conversation_id conn of
         Inl e \<Rightarrow> (Inl e, conn)
       | Inr rows \<Rightarrow>
           (case fetchone rows of
              Some row \<Rightarrow>
                (case load_metadata (c_metadata row) of
                   Inl e \<Rightarrow> (Inl e, conn)
                 | Inr md \<Rightarrow>
                     (Inr (Some \<lparr>cd_id = c_id row, cd_title = c_title row,
                                 cd_created_at = c_created_at row,
                                 cd_updated_at = c_updated_at row, cd_metadata = md\<rparr>), conn))
            | None \<Rightarrow> (Inr None, conn)))"

fun conversation_entries :: "(conversation_row \<times> int) list \<Rightarrow> error + conversation_entry list" where
  "conversation_entries [] = Inr []"
| "conversation_entries ((row, n) # rows) =
     (case load_metadata (c_metadata row) of
        Inl e \<Rightarrow> Inl e
      | Inr md \<Rightarrow>
          (case conversation_entries rows of
             Inl e \<Rightarrow> Inl e
           | Inr ds \<Rightarrow>
               Inr (\<lparr>ce_id = c_id row, ce_title = c_title row, ce_created_at = c_created_at row,
                     ce_updated_at = c_updated_at row, ce_message_count = n,
                     ce_metadata = md\<rparr> # ds)))"

definition get_all_conversations ::
  "nat option \<Rightarrow> ((conversation_row \<times> int) list \<Rightarrow> (conversation_row \<times> int) list) \<Rightarrow>
   database \<Rightarrow> int \<Rightarrow> (error + conversation_entry list) \<times> database" where
  "get_all_conversations fault scan db limit =
     with_connection db (\<lambda>conn.
       case exec_select_all (fault = Some 0) scan limit conn of
         Inl e \<Rightarrow> (Inl e, conn)
       | Inr rows \<Rightarrow> (conversation_entries rows, conn))"

definition add_message ::
  "nat option \<Rightarrow> datetime \<Rightarrow> datetime \<Rightarrow> datetime \<Rightarrow> database \<Rightarrow> string \<Rightarrow> string \<Rightarrow> string \<Rightarrow>
   pydict option \<Rightarrow> (error + message_dict) \<times> database" where
  \<comment> \<open>\<open>utc1\<close> is the engine clock at the \<^verbatim>\<open>INSERT\<close>, \<open>utc2\<close> the engine clock at the
      \<^verbatim>\<open>UPDATE\<close>, \<open>now\<close> the reading of \<^verbatim>\<open>datetime.now()\<close> in the returned dict\<close>
  "add_message fault utc1 utc2 now db conversation_id role content metadata =
     with_connection db (\<lambda>conn.
       case exec_insert_message (fault = Some 0) (current_timestamp utc1) conversation_id role
              content (json_dumps (JObject (or_empty metadata))) conn of
         Inl e \<Rightarrow> (Inl e, conn)
       | Inr (conn1, message_id) \<Rightarrow>
           (case exec_touch_conversation (fault = Some 1) (current_timestamp utc2)
                   conversation_id conn1 of
              Inl e \<Rightarrow> (Inl e, conn1)
            | Inr conn2 \<Rightarrow>
                (case commit (fault = Some 2) conn2 of
                   Inl e \<Rightarrow> (Inl e, conn2)
                 | Inr conn3 \<Rightarrow>
                     (Inr \<lparr>md_id = message_id, md_conversation_id = conversation_id,
                           md_role = role, md_content = content,
                           md_timestamp = isoformat now,
                           md_metadata = JObject (or_empty metadata)\<rparr>, conn3))))"

fun message_dicts :: "message_row list \<Rightarrow> error + message_dict list" where
  "message_dicts [] = Inr []"
| "message_dicts (row # rows) =
     (case load_metadata (m_metadata row) of
        Inl e \<Rightarrow> Inl e
      | Inr md \<Rightarrow>
          (case message_dicts rows of
             Inl e \<Rightarrow> Inl e
           | Inr ds \<Rightarrow>
               Inr (\<lparr>md_id = m_id row, md_conversation_id = m_conversation_id row,
                     md_role = m_role row, md_content = m_content row,
                     md_timestamp = m_timestamp row, md_metadata = md\<rparr> # ds)))"

definition get_messages ::
  "nat option \<Rightarrow> (message_row list \<Rightarrow> message_row list) \<Rightarrow> database \<Rightarrow> string \<Rightarrow>
   (error + message_dict list) \<times> database" where
  "get_messages fault scan db conversation_id =
     with_connection db (\<lambda>conn.
       case exec_select_messages (fault = Some 0) scan conversation_id conn of
         Inl e \<Rightarrow> (Inl e, conn)
       | Inr rows \<Rightarrow> (message_dicts rows, conn))"

definition delete_conversation ::
  "nat option \<Rightarrow> database \<Rightarrow> string \<Rightarrow> (error + bool) \<times> database" where
  "delete_conversation fault db conversation_id =
     with_connection db (\<lambda>conn.
       case exec_delete_conversation (fault = Some 0) conversation_id conn of
         Inl e \<Rightarrow> (Inl e, conn)
       | Inr (conn1, rowcount) \<Rightarrow>
           (let deleted = (0 < rowcount) in
            case commit (fault = Some 1) conn1 of
              Inl e \<Rightarrow> (Inl e, conn1)
            | Inr conn2 \<Rightarrow> (Inr deleted, conn2)))"

definition update_conversation_title ::
  "nat option \<Rightarrow> datetime \<Rightarrow> database \<Rightarrow> string \<Rightarrow> string \<Rightarrow> (error + bool) \<times> database" where
  "update_conversation_title fault utc db conversation_id title =
     with_connection db (\<lambda>conn.
       case exec_update_title (fault = Some 0) (current_timestamp utc) title conversation_id conn of
         Inl e \<Rightarrow> (Inl e, conn)
       | Inr (conn1, rowcount) \<Rightarrow>
           (let updated = (0 < rowcount) in
            case commit (fault = Some 1) conn1 of
              Inl e \<Rightarrow> (Inl e, conn1)
            | Inr conn2 \<Rightarrow> (Inr updated, conn2)))"

section \<open>Sequences of calls\<close>

text \<open>The calls that write to the store, with what the environment supplies to each, and
  the store after a sequence of them.\<close>

datatype call =
    CreateConversation "nat option" datetime datetime datetime string string "pydict option"
  | AddMessage "nat option" datetime datetime datetime string string string "pydict option"
  | DeleteConversation "nat option" string
  | UpdateConversationTitle "nat option" datetime string string

fun apply_call :: "call \<Rightarrow> database \<Rightarrow> database" where
  "apply_call (CreateConversation fault utc now1 now2 cid title metadata) db =
     snd (create_conversation fault utc now1 now2 db cid title metadata)"
| "apply_call (AddMessage fault utc1 utc2 now cid role content metadata) db =
     snd (add_message fault utc1 utc2 now db cid role content metadata)"
| "apply_call (DeleteConversation fault cid) db = snd (delete_conversation fault db cid)"
| "apply_call (UpdateConversationTitle fault utc cid title) db =
     snd (update_conversation_title fault utc db cid title)"

definition run :: "call list \<Rightarrow> database \<Rightarrow> database" where
  "run calls db = fold apply_call calls db"

section \<open>Sample inputs\<close>

definition noon :: datetime where
  "noon = \<lparr>year = 2024, month = 1, day = 2, hour = 12, minute = 0, second = 0,
           microsecond = 250\<rparr>"

definition noon_later :: datetime where
  "noon_later = \<lparr>year = 2024, month = 1, day = 2, hour = 12, minute = 0, second = 1,
                 microsecond = 0\<rparr>"

definition sample_metadata :: pydict where
  \<comment> \<open>\<^verbatim>\<open>{"k": "v", "n": 3}\<close>\<close>
  "sample_metadata = [(''k'', JString ''v''), (''n'', JInt 3)]"

definition one_conversation :: database where
  "one_conversation =
     snd (create_conversation None noon noon noon empty_db ''c1'' ''First'' (Some sample_metadata))"

definition one_message :: database where
  "one_message =
     snd (add_message None noon noon noon one_conversation ''c1'' ''human'' ''hi'' None)"

definition orphan_only :: database where
  \<comment> \<open>a message added under an id that no conversation has\<close>
  "orphan_only = snd (add_message None noon noon noon empty_db ''ghost'' ''human'' ''hi'' None)"



definition noon_latest :: datetime where
  "noon_latest = \<lparr>year = 2024, month = 1, day = 2, hour = 12, minute = 0, second = 2,
                  microsecond = 0\<rparr>"

definition three_conversations :: database where
  "three_conversations =
     snd (create_conversation None noon_later noon_later noon_later
       (snd (create_conversation None noon_latest noon_latest noon_latest one_message
          ''c2'' ''Second'' None))
       ''c3'' ''Third'' None)"

section \<open>Properties of the engine's choices\<close>

definition permutes :: "('a list \<Rightarrow> 'a list) \<Rightarrow> bool" where
  \<comment> \<open>a scan delivers every row it is given once, in an order of the engine's choosing\<close>
  "permutes scan = (\<forall>rows. mset (scan rows) = mset rows)"

section \<open>What a read returns for a row\<close>

definition decodable :: "string option \<Rightarrow> bool" where
  \<comment> \<open>the stored metadata text decodes (or is absent)\<close>
  "decodable md = (case load_metadata md of Inl _ \<Rightarrow> False | Inr _ \<Rightarrow> True)"

definition decoded :: "string option \<Rightarrow> json" where
  "decoded md = (case load_metadata md of Inl _ \<Rightarrow> JNull | Inr v \<Rightarrow> v)"



fun entry_of :: "conversation_row \<times> int \<Rightarrow> conversation_entry" where
  "entry_of (row, n) =
     \<lparr>ce_id = c_id row, ce_title = c_title row, ce_created_at = c_created_at row,
      ce_updated_at = c_updated_at row, ce_message_count = n,
      ce_metadata = decoded (c_metadata row)\<rparr>"

definition entry_of_row :: "database \<Rightarrow> conversation_row \<Rightarrow> conversation_entry" where
  \<comment> \<open>the dict \<open>get_all_conversations\<close> builds for a conversation: its row and the number of
      message rows that carry its id\<close>
  "entry_of_row db row =
     \<lparr>ce_id = c_id row, ce_title = c_title row, ce_created_at = c_created_at row,
      ce_updated_at = c_updated_at row, ce_message_count = message_count db (c_id row),
      ce_metadata = decoded (c_metadata row)\<rparr>"

section \<open>Well-formed documents and the shape of their text\<close>





section \<open>Facts about the engine model\<close>

lemmas engine_defs = with_connection_def sqlite3_connect_def commit_def
  exec_insert_conversation_def exec_select_conversation_def exec_select_all_def
  exec_insert_message_def exec_touch_conversation_def exec_select_messages_def
  exec_delete_conversation_def exec_update_title_def

lemmas text_defs = current_timestamp_def isoformat_def date_text_def time_text_def
  dec2_def dec4_def dec6_def digit_def

lemmas codec_defs = json_dumps.simps json_loads_def json_quote_def escape_char_def dquote_def backslash_def
  show_int_def show_nat.simps skip_ws_def is_ws_def dict_of_pairs_def parse_number_def
  parse_nat_def starts_fraction_def is_digit_def read_nat_def digit_val_def digit_def or_empty_def load_metadata_def

lemma dumps_empty_document: "json_dumps (JObject []) = ''{}''"
  by (simp add: json_dumps.simps)

lemma load_empty_document: "load_metadata (Some ''{}'') = Inr (JObject [])"
  by (simp add: codec_defs)

lemma load_sample_document:
  "load_metadata (Some (json_dumps (JObject sample_metadata))) = Inr (JObject sample_metadata)"
  by (simp add: sample_metadata_def codec_defs)

lemmas sample_defs = noon_def noon_later_def sample_metadata_def empty_db_def

lemma one_conversation_eq:
  "one_conversation =
     \<lparr>conversations =
        [\<lparr>c_id = ''c1'', c_title = ''First'', c_created_at = ''2024-01-02 12:00:00'',
          c_updated_at = ''2024-01-02 12:00:00'',
          c_metadata = Some (json_dumps (JObject sample_metadata))\<rparr>],
      messages = [], sqlite_sequence = 0\<rparr>"
  by (simp add: one_conversation_def create_conversation_def engine_defs text_defs
      conversation_ids_def or_empty_def sample_defs)

section \<open>Creating a conversation under an id in use\<close>

text \<open>
  C5. For every id that the store already holds, \<open>create_conversation\<close> raises: the
  primary key refuses the row (\<^verbatim>\<open>sqlite3.IntegrityError\<close>, the DuplicateKey condition), or the
  engine call itself fails first; the existing rows, with their titles, timestamps and
  metadata, are the ones the store held before the call.
\<close>

theorem create_conversation_duplicate:
  "conversation_id \<in> conversation_ids db \<Longrightarrow>
   create_conversation fault utc now1 now2 db conversation_id title metadata =
     (Inl (if fault = Some 0 then OperationalError else IntegrityError), db)"
  by (simp add: create_conversation_def engine_defs)

theorem create_conversation_duplicate_witness:
  "''c1'' \<in> conversation_ids one_conversation \<and>
   create_conversation None noon_later noon_later noon_later one_conversation ''c1'' ''Second''
     None = (Inl IntegrityError, one_conversation)"
proof -
  have used: "''c1'' \<in> conversation_ids one_conversation"
    by (simp add: one_conversation_eq conversation_ids_def)
  from create_conversation_duplicate [OF used, of None] used show ?thesis
    by simp
qed

section \<open>Rows that match no conversation\<close>

lemma unchanged_map:
  "cid \<notin> c_id ` set cs \<Longrightarrow> map (\<lambda>c. if c_id c = cid then f c else c) cs = cs"
  by (induction cs) auto

lemma unchanged_filter: "cid \<notin> c_id ` set cs \<Longrightarrow> filter (\<lambda>c. c_id c \<noteq> cid) cs = cs"
  by (induction cs) auto

lemma no_hit: "cid \<notin> c_id ` set cs \<Longrightarrow> filter (\<lambda>c. c_id c = cid) cs = []"
  by (induction cs) auto

lemma some_hit: "cid \<in> c_id ` set cs \<Longrightarrow> filter (\<lambda>c. c_id c = cid) cs \<noteq> []"
  by (induction cs) auto

lemma permutes_Nil: "permutes scan \<Longrightarrow> scan [] = []"
  using mset_zero_iff by (fastforce simp: permutes_def)

lemma next_rowid_empty: "next_rowid empty_db = 1"
  by (simp add: next_rowid_def empty_db_def)

lemma next_rowid_one_conversation: "next_rowid one_conversation = 1"
  by (simp add: next_rowid_def one_conversation_eq)

lemma one_message_eq:
  "one_message =
     \<lparr>conversations =
        [\<lparr>c_id = ''c1'', c_title = ''First'', c_created_at = ''2024-01-02 12:00:00'',
          c_updated_at = ''2024-01-02 12:00:00'',
          c_metadata = Some (json_dumps (JObject sample_metadata))\<rparr>],
      messages =
        [\<lparr>m_id = 1, m_conversation_id = ''c1'', m_role = ''human'', m_content = ''hi'',
          m_timestamp = ''2024-01-02 12:00:00'', m_metadata = Some ''{}''\<rparr>],
      sqlite_sequence = 1\<rparr>"
  by (simp add: one_message_def add_message_def engine_defs next_rowid_one_conversation
      int64_max_def or_empty_def dumps_empty_document)
    (simp add: one_conversation_eq text_defs noon_def)

lemma orphan_only_eq:
  "orphan_only =
     \<lparr>conversations = [],
      messages =
        [\<lparr>m_id = 1, m_conversation_id = ''ghost'', m_role = ''human'', m_content = ''hi'',
          m_timestamp = ''2024-01-02 12:00:00'', m_metadata = Some ''{}''\<rparr>],
      sqlite_sequence = 1\<rparr>"
  by (simp add: orphan_only_def add_message_def engine_defs next_rowid_empty
      int64_max_def or_empty_def dumps_empty_document)
    (simp add: empty_db_def text_defs noon_def)

lemma delete_conversation_messages:
  "messages (snd (delete_conversation fault db conversation_id)) = messages db"
  by (simp add: delete_conversation_def engine_defs Let_def)

text \<open>
  C1. Deleting a conversation is meant to delete its messages too, so that afterwards
  \<open>get_messages\<close> of that id is empty and no message is left without its conversation. On the
  store holding conversation \<^verbatim>\<open>c1\<close> with one message, \<open>delete_conversation\<close> reports
  \<^verbatim>\<open>True\<close> and removes the conversation row, but the message row stays: \<open>get_messages\<close>
  still returns it, and it is an orphan. The connection never enables foreign keys, so the
  \<^verbatim>\<open>ON DELETE CASCADE\<close> of the schema does not act.
\<close>

theorem delete_conversation_no_cascade:
  "delete_conversation None one_message ''c1'' =
     (Inr True, one_message\<lparr>conversations := []\<rparr>) \<and>
   get_messages None (\<lambda>rows. rows) (one_message\<lparr>conversations := []\<rparr>) ''c1'' =
     (Inr [\<lparr>md_id = 1, md_conversation_id = ''c1'', md_role = ''human'', md_content = ''hi'',
            md_timestamp = ''2024-01-02 12:00:00'', md_metadata = JObject []\<rparr>],
      one_message\<lparr>conversations := []\<rparr>) \<and>
   list_all (orphan (one_message\<lparr>conversations := []\<rparr>))
     (messages (one_message\<lparr>conversations := []\<rparr>)) \<and>
   messages (one_message\<lparr>conversations := []\<rparr>) \<noteq> []"
  by (simp add: one_message_eq delete_conversation_def get_messages_def engine_defs
      order_by_asc_def load_empty_document orphan_def conversation_ids_def)

text \<open>
  C8, as the code has it. For an id that no conversation row has: \<open>get_conversation\<close> returns
  \<^verbatim>\<open>None\<close>; \<open>update_conversation_title\<close> returns \<^verbatim>\<open>False\<close> and leaves the store as it was;
  \<open>delete_conversation\<close> returns \<^verbatim>\<open>False\<close> and leaves the store as it was; \<open>get_messages\<close>
  returns a list, which is empty when no message row carries that id. None of the four raises
  for the missing id.
\<close>

theorem missing_conversation:
  assumes "conversation_id \<notin> conversation_ids db"
  shows "get_conversation None db conversation_id = (Inr None, db) \<and>
     update_conversation_title None utc db conversation_id title = (Inr False, db) \<and>
     delete_conversation None db conversation_id = (Inr False, db) \<and>
     (permutes scan \<and> list_all (\<lambda>m. m_conversation_id m \<noteq> conversation_id) (messages db) \<longrightarrow>
        get_messages None scan db conversation_id = (Inr [], db))"
proof -
  have "permutes scan \<Longrightarrow>
    list_all (\<lambda>m. m_conversation_id m \<noteq> conversation_id) (messages db) \<Longrightarrow>
    scan (filter (\<lambda>m. m_conversation_id m = conversation_id) (messages db)) = []"
    by (simp add: filter_empty_conv list_all_iff permutes_Nil)
  then show ?thesis using assms
    by (simp add: get_conversation_def update_conversation_title_def delete_conversation_def
      get_messages_def engine_defs conversation_ids_def no_hit unchanged_map unchanged_filter
      fetchone_def order_by_asc_def)
qed

theorem missing_conversation_witness:
  "''c2'' \<notin> conversation_ids one_message \<and>
   get_conversation None one_message ''c2'' = (Inr None, one_message) \<and>
   update_conversation_title None noon_later one_message ''c2'' ''x'' = (Inr False, one_message) \<and>
   delete_conversation None one_message ''c2'' = (Inr False, one_message) \<and>
   get_messages None rev one_message ''c2'' = (Inr [], one_message)"
proof -
  have a: "''c2'' \<notin> conversation_ids one_message"
    by (simp add: one_message_eq conversation_ids_def)
  have b: "permutes (rev :: message_row list \<Rightarrow> message_row list)"
    by (simp add: permutes_def)
  have c: "list_all (\<lambda>m. m_conversation_id m \<noteq> ''c2'') (messages one_message)"
    by (simp add: one_message_eq)
  from missing_conversation [OF a, of noon_later "''x''" rev] a b c show ?thesis
    by simp
qed

text \<open>
  C8 as stated fails for \<open>get_messages\<close>: \<open>add_message\<close> does not look for the parent, so a
  message can carry an id that no conversation has, and \<open>get_messages\<close> of that id returns
  it.
\<close>

theorem missing_conversation_counterexample:
  "''ghost'' \<notin> conversation_ids orphan_only \<and>
   get_messages None (\<lambda>rows. rows) orphan_only ''ghost'' =
     (Inr [\<lparr>md_id = 1, md_conversation_id = ''ghost'', md_role = ''human'', md_content = ''hi'',
            md_timestamp = ''2024-01-02 12:00:00'', md_metadata = JObject []\<rparr>], orphan_only)"
  by (simp add: orphan_only_eq get_messages_def engine_defs
      order_by_asc_def load_empty_document conversation_ids_def)

section \<open>Appending a message\<close>

lemma length_date_text: "length (date_text t) = 10"
  by (simp add: date_text_def dec2_def dec4_def)

lemma isoformat_not_current_timestamp: "isoformat a \<noteq> current_timestamp b"
  by (simp add: isoformat_def current_timestamp_def length_date_text)

lemma add_message_result:
  "add_message fault utc1 utc2 now db cid role content metadata =
     (if fault = Some 0 \<or> int64_max < next_rowid db \<or> fault = Some 1 \<or> fault = Some 2
      then (Inl OperationalError, db)
      else (Inr \<lparr>md_id = next_rowid db, md_conversation_id = cid, md_role = role,
                  md_content = content, md_timestamp = isoformat now,
                  md_metadata = JObject (or_empty metadata)\<rparr>,
            db\<lparr>conversations :=
                  map (\<lambda>c. if c_id c = cid then c\<lparr>c_updated_at := current_timestamp utc2\<rparr> else c)
                    (conversations db),
                messages := messages db @
                  [\<lparr>m_id = next_rowid db, m_conversation_id = cid, m_role = role,
                    m_content = content, m_timestamp = current_timestamp utc1,
                    m_metadata = Some (json_dumps (JObject (or_empty metadata)))\<rparr>],
                sqlite_sequence := next_rowid db\<rparr>))"
  by (simp add: add_message_def engine_defs)

lemma touched_rows:
  "list_all (\<lambda>c. c_id c = cid \<longrightarrow> c_updated_at c = t)
     (map (\<lambda>c. if c_id c = cid then c\<lparr>c_updated_at := t\<rparr> else c) cs)"
  by (induction cs) auto

text \<open>
  C3, as the code has it. \<open>add_message\<close> is all or nothing: when it raises, the store is the
  one before the call (the \<^verbatim>\<open>with\<close> block rolls the transaction back); with a healthy engine
  and a free row id it returns, and then exactly one message row has been appended, stamped
  with the engine clock of the \<^verbatim>\<open>INSERT\<close>, and the \<open>updated_at\<close> of every conversation row
  with that id is the engine clock of the \<^verbatim>\<open>UPDATE\<close>. The two are separate readings; when they
  fall in the same second the conversation's \<open>updated_at\<close> equals the new message's timestamp.
\<close>

theorem add_message_effects:
  "(fault = None \<and> next_rowid db \<le> int64_max \<longrightarrow>
      fst (add_message fault utc1 utc2 now db cid role content metadata) =
        Inr \<lparr>md_id = next_rowid db, md_conversation_id = cid, md_role = role,
             md_content = content, md_timestamp = isoformat now,
             md_metadata = JObject (or_empty metadata)\<rparr>) \<and>
   (case add_message fault utc1 utc2 now db cid role content metadata of
      (Inl e, db') \<Rightarrow> db' = db
    | (Inr d, db') \<Rightarrow>
        messages db' = messages db @
          [\<lparr>m_id = next_rowid db, m_conversation_id = cid, m_role = role, m_content = content,
            m_timestamp = current_timestamp utc1,
            m_metadata = Some (json_dumps (JObject (or_empty metadata)))\<rparr>] \<and>
        conversations db' =
          map (\<lambda>c. if c_id c = cid then c\<lparr>c_updated_at := current_timestamp utc2\<rparr> else c)
            (conversations db) \<and>
        (current_timestamp utc1 = current_timestamp utc2 \<longrightarrow>
           list_all (\<lambda>c. c_id c = cid \<longrightarrow> c_updated_at c = m_timestamp (last (messages db')))
             (conversations db')))"
  by (simp add: add_message_result touched_rows)

theorem add_message_effects_witness:
  "next_rowid one_conversation \<le> int64_max \<and>
   add_message None noon noon noon one_conversation ''c1'' ''human'' ''hi'' None =
     (Inr \<lparr>md_id = 1, md_conversation_id = ''c1'', md_role = ''human'', md_content = ''hi'',
            md_timestamp = ''2024-01-02T12:00:00.000250'', md_metadata = JObject []\<rparr>,
      one_message) \<and>
   c_updated_at (hd (conversations one_message)) = m_timestamp (last (messages one_message)) \<and>
   add_message (Some 1) noon noon_later noon one_conversation ''c1'' ''human'' ''hi'' None =
     (Inl OperationalError, one_conversation)"
  using add_message_effects [of None one_conversation noon noon noon "''c1''" "''human''" "''hi''" None]
    add_message_effects [of "Some 1" one_conversation noon noon_later noon "''c1''" "''human''" "''hi''" None]
  by (simp add: add_message_def engine_defs next_rowid_one_conversation int64_max_def or_empty_def
      one_message_eq dumps_empty_document)
    (simp add: one_conversation_eq text_defs noon_def)

text \<open>
  C3 as stated fails where the second boundary falls between the two statements: the message
  is stamped \<^verbatim>\<open>12:00:00\<close> and the conversation \<^verbatim>\<open>12:00:01\<close>.
\<close>

theorem add_message_effects_counterexample:
  "add_message None noon noon_later noon one_conversation ''c1'' ''human'' ''hi'' None =
     (Inr \<lparr>md_id = 1, md_conversation_id = ''c1'', md_role = ''human'', md_content = ''hi'',
            md_timestamp = ''2024-01-02T12:00:00.000250'', md_metadata = JObject []\<rparr>,
      \<lparr>conversations =
        [\<lparr>c_id = ''c1'', c_title = ''First'', c_created_at = ''2024-01-02 12:00:00'',
          c_updated_at = ''2024-01-02 12:00:01'',
          c_metadata = Some (json_dumps (JObject sample_metadata))\<rparr>],
       messages =
        [\<lparr>m_id = 1, m_conversation_id = ''c1'', m_role = ''human'', m_content = ''hi'',
          m_timestamp = ''2024-01-02 12:00:00'', m_metadata = Some ''{}''\<rparr>],
       sqlite_sequence = 1\<rparr>) \<and>
   ''2024-01-02 12:00:01'' \<noteq> ''2024-01-02 12:00:00''"
  by (simp add: add_message_def engine_defs next_rowid_one_conversation int64_max_def or_empty_def
      dumps_empty_document)
    (simp add: one_conversation_eq text_defs noon_def noon_later_def)

section \<open>What the write operations return\<close>

text \<open>
  C6, as the code has it. The dict returned by \<open>create_conversation\<close> has the id, the title
  and the metadata of the row the call wrote, and the dict returned by \<open>add_message\<close> has the
  id, conversation id, role, content and metadata of the row the call wrote (the row stores
  the metadata as its JSON text). The timestamps of the returned dicts are readings of the
  application clock in ISO format; the rows hold the engine's \<^verbatim>\<open>CURRENT_TIMESTAMP\<close>, and the
  two texts are never equal.
\<close>

theorem returned_records:
  "(create_conversation fault utc now1 now2 db cid title metadata = (Inr d, db') \<longrightarrow>
      conversations db' = conversations db @
        [\<lparr>c_id = cd_id d, c_title = cd_title d, c_created_at = current_timestamp utc,
          c_updated_at = current_timestamp utc,
          c_metadata = Some (json_dumps (cd_metadata d))\<rparr>] \<and>
      cd_created_at d = isoformat now1 \<and> cd_updated_at d = isoformat now2 \<and>
      cd_created_at d \<noteq> current_timestamp utc \<and> cd_updated_at d \<noteq> current_timestamp utc) \<and>
   (add_message fault utc1 utc2 now db cid role content metadata = (Inr m, db'') \<longrightarrow>
      messages db'' = messages db @
        [\<lparr>m_id = md_id m, m_conversation_id = md_conversation_id m, m_role = md_role m,
          m_content = md_content m, m_timestamp = current_timestamp utc1,
          m_metadata = Some (json_dumps (md_metadata m))\<rparr>] \<and>
      md_timestamp m = isoformat now \<and> md_timestamp m \<noteq> current_timestamp utc1)"
  by (auto simp add: create_conversation_def add_message_def engine_defs
      isoformat_not_current_timestamp split: if_splits)

theorem returned_records_witness:
  "conversations one_conversation = conversations empty_db @
     [\<lparr>c_id = ''c1'', c_title = ''First'', c_created_at = current_timestamp noon,
       c_updated_at = current_timestamp noon,
       c_metadata = Some (json_dumps (JObject sample_metadata))\<rparr>] \<and>
   messages one_message = messages one_conversation @
     [\<lparr>m_id = 1, m_conversation_id = ''c1'', m_role = ''human'', m_content = ''hi'',
       m_timestamp = current_timestamp noon, m_metadata = Some (json_dumps (JObject []))\<rparr>]"
proof -
  have c: "create_conversation None noon noon noon empty_db ''c1'' ''First''
       (Some sample_metadata) =
     (Inr \<lparr>cd_id = ''c1'', cd_title = ''First'', cd_created_at = isoformat noon,
           cd_updated_at = isoformat noon, cd_metadata = JObject sample_metadata\<rparr>,
      one_conversation)"
    by (simp add: one_conversation_def)
      (simp add: create_conversation_def engine_defs conversation_ids_def empty_db_def
        or_empty_def sample_metadata_def)
  have a: "add_message None noon noon noon one_conversation ''c1'' ''human'' ''hi'' None =
     (Inr \<lparr>md_id = 1, md_conversation_id = ''c1'', md_role = ''human'', md_content = ''hi'',
           md_timestamp = isoformat noon, md_metadata = JObject []\<rparr>, one_message)"
    by (simp add: one_message_def)
      (simp add: add_message_result next_rowid_one_conversation int64_max_def or_empty_def)
  from returned_records [of None noon noon noon empty_db "''c1''" "''First''"
      "Some sample_metadata" _ one_conversation] c
  have "conversations one_conversation = conversations empty_db @
     [\<lparr>c_id = ''c1'', c_title = ''First'', c_created_at = current_timestamp noon,
       c_updated_at = current_timestamp noon,
       c_metadata = Some (json_dumps (JObject sample_metadata))\<rparr>]"
    by simp
  moreover
  from returned_records [of None _ _ _ one_conversation "''c1''" _ None _ _ noon noon noon
      "''human''" "''hi''" _ one_message] a
  have "messages one_message = messages one_conversation @
     [\<lparr>m_id = 1, m_conversation_id = ''c1'', m_role = ''human'', m_content = ''hi'',
       m_timestamp = current_timestamp noon, m_metadata = Some (json_dumps (JObject []))\<rparr>]"
    by simp
  ultimately show ?thesis
    by simp
qed

text \<open>
  C6 as stated fails on the timestamps: the dict returned for a conversation created at
  noon carries \<^verbatim>\<open>2024-01-02T12:00:00.000250\<close>, the row \<^verbatim>\<open>2024-01-02 12:00:00\<close>.
\<close>

theorem returned_records_counterexample:
  "create_conversation None noon noon noon empty_db ''c1'' ''First'' None =
     (Inr \<lparr>cd_id = ''c1'', cd_title = ''First'',
            cd_created_at = ''2024-01-02T12:00:00.000250'',
            cd_updated_at = ''2024-01-02T12:00:00.000250'', cd_metadata = JObject []\<rparr>,
      \<lparr>conversations =
         [\<lparr>c_id = ''c1'', c_title = ''First'', c_created_at = ''2024-01-02 12:00:00'',
           c_updated_at = ''2024-01-02 12:00:00'', c_metadata = Some ''{}''\<rparr>],
       messages = [], sqlite_sequence = 0\<rparr>) \<and>
   ''2024-01-02T12:00:00.000250'' \<noteq> ''2024-01-02 12:00:00''"
  by (simp add: create_conversation_def engine_defs conversation_ids_def or_empty_def
      empty_db_def text_defs noon_def dumps_empty_document)

section \<open>Renaming a conversation\<close>

lemma update_conversation_title_result:
  "update_conversation_title fault utc db cid title =
     (if fault = Some 0 \<or> fault = Some 1 then (Inl OperationalError, db)
      else (Inr (0 < length (filter (\<lambda>c. c_id c = cid) (conversations db))),
            db\<lparr>conversations :=
                  map (\<lambda>c. if c_id c = cid
                            then c\<lparr>c_title := title, c_updated_at := current_timestamp utc\<rparr> else c)
                    (conversations db)\<rparr>))"
  by (simp add: update_conversation_title_def engine_defs)

lemma retitled_rows:
  "list_all (\<lambda>c. c_id c = cid \<longrightarrow> c_title c = title \<and> c_updated_at c = t)
     (map (\<lambda>c. if c_id c = cid then c\<lparr>c_title := title, c_updated_at := t\<rparr> else c) cs)"
  by (induction cs) auto

lemma retitled_others:
  "filter (\<lambda>c. c_id c \<noteq> cid)
     (map (\<lambda>c. if c_id c = cid then c\<lparr>c_title := title, c_updated_at := t\<rparr> else c) cs) =
   filter (\<lambda>c. c_id c \<noteq> cid) cs"
  by (induction cs) auto

lemma retitled_ids:
  "map c_id (map (\<lambda>c. if c_id c = cid then c\<lparr>c_title := title, c_updated_at := t\<rparr> else c) cs)
     = map c_id cs"
  by (induction cs) auto

lemma retitled_created:
  "map c_created_at
     (map (\<lambda>c. if c_id c = cid then c\<lparr>c_title := title, c_updated_at := t\<rparr> else c) cs)
     = map c_created_at cs"
  by (induction cs) auto

lemma retitled_metadata:
  "map c_metadata
     (map (\<lambda>c. if c_id c = cid then c\<lparr>c_title := title, c_updated_at := t\<rparr> else c) cs)
     = map c_metadata cs"
  by (induction cs) auto

text \<open>
  C10. For an id that the store holds, \<open>update_conversation_title\<close> with a healthy engine
  returns \<^verbatim>\<open>True\<close> and gives the rows of that id the new title and the engine clock as
  \<open>updated_at\<close>. Whatever the engine does, the message rows, the id sequence, the ids,
  \<open>created_at\<close> and metadata of all conversation rows, and every conversation row of another
  id are the ones before the call.
\<close>

theorem update_conversation_title_frame:
  assumes "conversation_id \<in> conversation_ids db"
  shows "(fault = None \<longrightarrow>
       fst (update_conversation_title fault utc db conversation_id title) = Inr True \<and>
       list_all (\<lambda>c. c_id c = conversation_id \<longrightarrow>
                  c_title c = title \<and> c_updated_at c = current_timestamp utc)
         (conversations (snd (update_conversation_title fault utc db conversation_id title)))) \<and>
     messages (snd (update_conversation_title fault utc db conversation_id title)) = messages db \<and>
     sqlite_sequence (snd (update_conversation_title fault utc db conversation_id title)) =
       sqlite_sequence db \<and>
     map c_id (conversations (snd (update_conversation_title fault utc db conversation_id title)))
       = map c_id (conversations db) \<and>
     map c_created_at
         (conversations (snd (update_conversation_title fault utc db conversation_id title)))
       = map c_created_at (conversations db) \<and>
     map c_metadata
         (conversations (snd (update_conversation_title fault utc db conversation_id title)))
       = map c_metadata (conversations db) \<and>
     filter (\<lambda>c. c_id c \<noteq> conversation_id)
         (conversations (snd (update_conversation_title fault utc db conversation_id title)))
       = filter (\<lambda>c. c_id c \<noteq> conversation_id) (conversations db)"
proof -
  have "filter (\<lambda>c. c_id c = conversation_id) (conversations db) \<noteq> []"
    using assms by (simp add: conversation_ids_def some_hit)
  then show ?thesis
    by (simp add: update_conversation_title_result retitled_rows retitled_others
        retitled_ids retitled_created retitled_metadata)
qed

theorem update_conversation_title_frame_witness:
  "''c1'' \<in> conversation_ids one_message \<and>
   update_conversation_title None noon_later one_message ''c1'' ''Renamed'' =
     (Inr True,
      \<lparr>conversations =
        [\<lparr>c_id = ''c1'', c_title = ''Renamed'', c_created_at = ''2024-01-02 12:00:00'',
          c_updated_at = ''2024-01-02 12:00:01'',
          c_metadata = Some (json_dumps (JObject sample_metadata))\<rparr>],
       messages = messages one_message, sqlite_sequence = 1\<rparr>)"
proof -
  have a: "''c1'' \<in> conversation_ids one_message"
    by (simp add: one_message_eq conversation_ids_def)
  from update_conversation_title_frame [OF a, of None noon_later "''Renamed''"] a show ?thesis
    by (simp add: update_conversation_title_def engine_defs one_message_eq)
      (simp add: text_defs noon_later_def)
qed

section \<open>Reading the messages of a conversation\<close>



lemma scan_set: "permutes scan \<Longrightarrow> set (scan rows) = set rows"
  by (metis permutes_def set_mset_mset)

lemma scan_length: "permutes scan \<Longrightarrow> length (scan rows) = length rows"
  by (metis permutes_def size_mset)







section \<open>Listing conversations\<close>

lemma three_conversations_eq:
  "three_conversations =
     \<lparr>conversations =
        [\<lparr>c_id = ''c1'', c_title = ''First'', c_created_at = ''2024-01-02 12:00:00'',
          c_updated_at = ''2024-01-02 12:00:00'',
          c_metadata = Some (json_dumps (JObject sample_metadata))\<rparr>,
         \<lparr>c_id = ''c2'', c_title = ''Second'', c_created_at = ''2024-01-02 12:00:02'',
          c_updated_at = ''2024-01-02 12:00:02'', c_metadata = Some ''{}''\<rparr>,
         \<lparr>c_id = ''c3'', c_title = ''Third'', c_created_at = ''2024-01-02 12:00:01'',
          c_updated_at = ''2024-01-02 12:00:01'', c_metadata = Some ''{}''\<rparr>],
      messages =
        [\<lparr>m_id = 1, m_conversation_id = ''c1'', m_role = ''human'', m_content = ''hi'',
          m_timestamp = ''2024-01-02 12:00:00'', m_metadata = Some ''{}''\<rparr>],
      sqlite_sequence = 1\<rparr>"
  by (simp add: three_conversations_def create_conversation_def engine_defs one_message_eq
      conversation_ids_def or_empty_def dumps_empty_document)
    (simp add: text_defs noon_later_def noon_latest_def)

lemma conversation_entries_decodable:
  "list_all (\<lambda>r. decodable (c_metadata (fst r))) rows \<Longrightarrow>
   conversation_entries rows = Inr (map entry_of rows)"
  by (induction rows)
    (auto simp add: decodable_def decoded_def split: sum.splits)

lemma get_all_conversations_result:
  "get_all_conversations None scan db limit =
     (if limit < - int64_max - 1 \<or> int64_max < limit then (Inl OverflowError, db)
      else (conversation_entries (sql_limit limit (rev (sort_key (c_updated_at \<circ> fst)
              (scan (map (\<lambda>c. (c, message_count db (c_id c))) (conversations db)))))), db))"
  by (simp add: get_all_conversations_def engine_defs order_by_desc_def split: sum.splits)

lemma map_sort_key_scan:
  assumes "permutes scan"
  shows "map f (sort_key f (scan rows)) = sort (map f rows)"
proof -
  have "mset (map f (sort_key f (scan rows))) = mset (map f rows)"
    using assms by (simp add: permutes_def)
  moreover have "sorted (map f (sort_key f (scan rows)))"
    by (rule sorted_sort_key)
  ultimately show ?thesis
    by (rule properties_for_sort [symmetric])
qed

lemma mset_take_subset: "mset (take n rows) \<subseteq># mset rows"
  by (metis append_take_drop_id mset_append mset_subset_eq_add_left)

lemma mset_sql_limit: "mset (sql_limit n rows) \<subseteq># mset rows"
  by (simp add: sql_limit_def mset_take_subset)

lemma set_sql_limit: "set (sql_limit n rows) \<subseteq> set rows"
  by (simp add: sql_limit_def set_take_subset)

lemma map_sql_limit: "map f (sql_limit n rows) = sql_limit n (map f rows)"
  by (simp add: sql_limit_def take_map)

text \<open>
  C7, as the code has it. For a limit within the 64-bit integers and whatever order the
  engine's scan delivers the groups in, \<open>get_all_conversations\<close> returns entries whose
  \<open>updated_at\<close> values are the first \<open>limit\<close> values of all conversations' \<open>updated_at\<close> in
  descending order; every entry is the entry of a conversation row, with the number of
  message rows carrying its id (0 when there are none); for \<open>0 \<le> limit\<close> there are
  \<open>min limit n\<close> entries for \<open>n\<close> conversations; a negative limit does not cap the result.
\<close>

theorem get_all_conversations_order:
  assumes "permutes scan"
    and "list_all (\<lambda>c. decodable (c_metadata c)) (conversations db)"
    and "- int64_max - 1 \<le> limit" and "limit \<le> int64_max"
  shows "\<exists>es. get_all_conversations None scan db limit = (Inr es, db) \<and>
     map ce_updated_at es = sql_limit limit (rev (sort (map c_updated_at (conversations db)))) \<and>
     mset es \<subseteq># mset (map (entry_of_row db) (conversations db)) \<and>
     (0 \<le> limit \<longrightarrow> length es = min (nat limit) (length (conversations db))) \<and>
     (limit < 0 \<longrightarrow> length es = length (conversations db))"
proof -
  let ?groups = "map (\<lambda>c. (c, message_count db (c_id c))) (conversations db)"
  let ?ordered = "rev (sort_key (c_updated_at \<circ> fst) (scan ?groups))"
  let ?es = "map entry_of (sql_limit limit ?ordered)"
  have m: "mset ?ordered = mset ?groups"
    using assms(1) by (simp add: permutes_def)
  have s: "set ?ordered = set ?groups"
    by (simp add: scan_set [OF assms(1)])
  have "list_all (\<lambda>r. decodable (c_metadata (fst r))) ?groups"
    using assms(2) by (simp add: list_all_iff)
  then have "list_all (\<lambda>r. decodable (c_metadata (fst r))) ?ordered"
    using s by (simp add: list_all_iff)
  then have "list_all (\<lambda>r. decodable (c_metadata (fst r))) (sql_limit limit ?ordered)"
    unfolding list_all_iff using set_sql_limit [of limit ?ordered] by blast
  then have r: "get_all_conversations None scan db limit = (Inr ?es, db)"
    using assms(3,4) by (simp add: get_all_conversations_result conversation_entries_decodable)
  have k: "ce_updated_at \<circ> entry_of = c_updated_at \<circ> fst"
    by (rule ext) (auto simp add: comp_def)
  have "map (c_updated_at \<circ> fst) ?ordered = rev (sort (map (c_updated_at \<circ> fst) ?groups))"
    by (simp only: rev_map [symmetric] map_sort_key_scan [OF assms(1)])
  also have "map (c_updated_at \<circ> fst) ?groups = map c_updated_at (conversations db)"
    by (simp add: comp_def)
  finally have "map (c_updated_at \<circ> fst) ?ordered =
      rev (sort (map c_updated_at (conversations db)))" .
  then have a: "map ce_updated_at ?es =
      sql_limit limit (rev (sort (map c_updated_at (conversations db))))"
    by (simp only: map_map k map_sql_limit)
  have e: "map entry_of ?groups = map (entry_of_row db) (conversations db)"
    by (simp add: entry_of_row_def)
  have "mset (sql_limit limit ?ordered) \<subseteq># mset ?ordered"
    by (rule mset_sql_limit)
  then have "image_mset entry_of (mset (sql_limit limit ?ordered)) \<subseteq>#
      image_mset entry_of (mset ?ordered)"
    by (rule image_mset_subseteq_mono)
  then have "mset ?es \<subseteq># mset (map entry_of ?ordered)"
    by simp
  also have "mset (map entry_of ?ordered) = mset (map entry_of ?groups)"
    by (simp only: mset_map m)
  finally have b: "mset ?es \<subseteq># mset (map (entry_of_row db) (conversations db))"
    by (simp only: e)
  have l: "length ?ordered = length (conversations db)"
    by (simp add: scan_length [OF assms(1)])
  have c: "0 \<le> limit \<longrightarrow> length ?es = min (nat limit) (length (conversations db))"
    using l by (simp add: sql_limit_def min.commute)
  have d: "limit < 0 \<longrightarrow> length ?es = length (conversations db)"
    using l by (simp add: sql_limit_def)
  show ?thesis
  proof (intro exI conjI)
    show "get_all_conversations None scan db limit = (Inr ?es, db)" by (rule r)
    show "map ce_updated_at ?es =
      sql_limit limit (rev (sort (map c_updated_at (conversations db))))" by (rule a)
    show "mset ?es \<subseteq># mset (map (entry_of_row db) (conversations db))" by (rule b)
    show "0 \<le> limit \<longrightarrow> length ?es = min (nat limit) (length (conversations db))" by (rule c)
    show "limit < 0 \<longrightarrow> length ?es = length (conversations db)" by (rule d)
  qed
qed

theorem get_all_conversations_order_witness:
  "permutes (rev :: (conversation_row \<times> int) list \<Rightarrow> (conversation_row \<times> int) list) \<and>
   list_all (\<lambda>c. decodable (c_metadata c)) (conversations three_conversations) \<and>
   - int64_max - 1 \<le> 1 \<and> 1 \<le> int64_max \<and>
   get_all_conversations None rev three_conversations 1 =
     (Inr [\<lparr>ce_id = ''c2'', ce_title = ''Second'', ce_created_at = ''2024-01-02 12:00:02'',
            ce_updated_at = ''2024-01-02 12:00:02'', ce_message_count = 0,
            ce_metadata = JObject []\<rparr>], three_conversations) \<and>
   map ce_updated_at (projr (fst (get_all_conversations None rev three_conversations 1))) =
     sql_limit 1 (rev (sort (map c_updated_at (conversations three_conversations))))"
proof -
  have p: "permutes (rev :: (conversation_row \<times> int) list \<Rightarrow> (conversation_row \<times> int) list)"
    by (simp add: permutes_def)
  have d: "list_all (\<lambda>c. decodable (c_metadata c)) (conversations three_conversations)"
    by (simp add: three_conversations_eq decodable_def load_empty_document load_sample_document)
  have l: "- int64_max - 1 \<le> 1" "1 \<le> int64_max"
    by (simp_all add: int64_max_def)
  have e: "get_all_conversations None rev three_conversations 1 =
     (Inr [\<lparr>ce_id = ''c2'', ce_title = ''Second'', ce_created_at = ''2024-01-02 12:00:02'',
            ce_updated_at = ''2024-01-02 12:00:02'', ce_message_count = 0,
            ce_metadata = JObject []\<rparr>], three_conversations)"
    by (simp add: get_all_conversations_result int64_max_def three_conversations_eq
        message_count_def sql_limit_def load_empty_document)
  from get_all_conversations_order [OF p d l] e p d l show ?thesis
    by auto
qed

text \<open>
  C7 as stated fails for a negative limit: \<^verbatim>\<open>LIMIT -1\<close> returns all three conversations.
\<close>

theorem get_all_conversations_order_counterexample:
  "permutes (\<lambda>rows :: (conversation_row \<times> int) list. rows) \<and>
   - int64_max - 1 \<le> - 1 \<and> - 1 \<le> int64_max \<and>
   map ce_id (projr (fst (get_all_conversations None (\<lambda>rows. rows) three_conversations (- 1)))) =
     [''c2'', ''c3'', ''c1'']"
  by (simp add: permutes_def get_all_conversations_result int64_max_def three_conversations_eq
      message_count_def sql_limit_def load_empty_document load_sample_document)

section \<open>Message ids\<close>

lemma fold_max_ge: "a \<le> fold max xs (a :: int)"
  by (induction xs arbitrary: a) (auto intro: order_trans [OF max.cobounded2])

lemma fold_max_member: "x \<in> set xs \<Longrightarrow> x \<le> fold max xs (a :: int)"
proof (induction xs arbitrary: a)
  case Nil
  then show ?case by simp
next
  case (Cons y ys)
  show ?case
  proof (cases "x = y")
    case True
    have "y \<le> max y a" by simp
    also have "\<dots> \<le> fold max ys (max y a)" by (rule fold_max_ge)
    finally show ?thesis using True by simp
  next
    case False
    with Cons show ?thesis by simp
  qed
qed

lemma next_rowid_above_sequence: "sqlite_sequence db < next_rowid db"
proof -
  have "sqlite_sequence db \<le> max 0 (sqlite_sequence db)" by simp
  also have "\<dots> \<le> fold max (map m_id (messages db)) (max 0 (sqlite_sequence db))"
    by (rule fold_max_ge)
  finally show ?thesis by (simp add: next_rowid_def)
qed

lemma next_rowid_above_rows: "m \<in> set (messages db) \<Longrightarrow> m_id m < next_rowid db"
  using fold_max_member [of "m_id m" "map m_id (messages db)" "max 0 (sqlite_sequence db)"]
  by (simp add: next_rowid_def)

lemma create_conversation_rows:
  "messages (snd (create_conversation fault utc now1 now2 db cid title metadata)) = messages db \<and>
   sqlite_sequence (snd (create_conversation fault utc now1 now2 db cid title metadata)) =
     sqlite_sequence db"
  by (simp add: create_conversation_def engine_defs)

lemma delete_conversation_sequence:
  "sqlite_sequence (snd (delete_conversation fault db cid)) = sqlite_sequence db"
  by (simp add: delete_conversation_def engine_defs Let_def)

lemma update_conversation_title_rows:
  "messages (snd (update_conversation_title fault utc db cid title)) = messages db \<and>
   sqlite_sequence (snd (update_conversation_title fault utc db cid title)) = sqlite_sequence db"
  by (simp add: update_conversation_title_result)

lemma apply_call_sequence: "sqlite_sequence db \<le> sqlite_sequence (apply_call c db)"
proof (cases c)
  case (AddMessage fault utc1 utc2 now cid role content metadata)
  then show ?thesis
    using next_rowid_above_sequence [of db] by (simp add: add_message_result)
qed (simp_all add: create_conversation_rows delete_conversation_sequence
    update_conversation_title_rows)

lemma run_sequence: "sqlite_sequence db \<le> sqlite_sequence (run calls db)"
  unfolding run_def
proof (induction calls arbitrary: db)
  case Nil
  show ?case by simp
next
  case (Cons c calls)
  have "sqlite_sequence db \<le> sqlite_sequence (apply_call c db)"
    by (rule apply_call_sequence)
  also have "\<dots> \<le> sqlite_sequence (fold apply_call calls (apply_call c db))"
    by (rule Cons.IH)
  finally show ?case by simp
qed

lemma apply_call_distinct:
  assumes "distinct (map m_id (messages db))"
  shows "distinct (map m_id (messages (apply_call c db)))"
proof (cases c)
  case (AddMessage fault utc1 utc2 now cid role content metadata)
  have "next_rowid db \<notin> m_id ` set (messages db)"
    using next_rowid_above_rows [of _ db] by fastforce
  then show ?thesis
    using assms AddMessage by (simp add: add_message_result)
qed (simp_all add: assms create_conversation_rows delete_conversation_messages
    update_conversation_title_rows)

lemma run_distinct:
  "distinct (map m_id (messages db)) \<Longrightarrow> distinct (map m_id (messages (run calls db)))"
  unfolding run_def
  by (induction calls arbitrary: db) (simp_all add: apply_call_distinct)

lemma add_message_returned_id:
  assumes "add_message fault utc1 utc2 now db cid role content metadata = (Inr m, db')"
  shows "md_id m = next_rowid db \<and> sqlite_sequence db' = next_rowid db \<and>
    m_id (last (messages db')) = md_id m"
  using assms by (auto simp add: add_message_result split: if_splits)

text \<open>
  C9. Of two calls of \<open>add_message\<close> that both return, the later returns the greater id,
  whatever conversations they name and whatever calls (deletes among them) come in between;
  each returned id is the id of the row the call wrote. Message ids that are distinct stay
  distinct, and no store built from the empty one holds two messages with the same id.
\<close>

theorem message_ids_increase:
  assumes "add_message fault1 utc1 utc1' now1 db cid1 role1 content1 metadata1 = (Inr m1, db1)"
    and "add_message fault2 utc2 utc2' now2 (run calls db1) cid2 role2 content2 metadata2 =
           (Inr m2, db2)"
  shows "md_id m1 < md_id m2 \<and>
     m_id (last (messages db1)) = md_id m1 \<and> m_id (last (messages db2)) = md_id m2 \<and>
     (distinct (map m_id (messages db)) \<longrightarrow> distinct (map m_id (messages db2))) \<and>
     distinct (map m_id (messages (run calls' empty_db)))"
proof -
  have "md_id m1 = sqlite_sequence db1"
    using add_message_returned_id [OF assms(1)] by simp
  also have "\<dots> \<le> sqlite_sequence (run calls db1)"
    by (rule run_sequence)
  also have "\<dots> < next_rowid (run calls db1)"
    by (rule next_rowid_above_sequence)
  also have "\<dots> = md_id m2"
    using add_message_returned_id [OF assms(2)] by simp
  finally have a: "md_id m1 < md_id m2" .
  have "distinct (map m_id (messages db2))" if d: "distinct (map m_id (messages db))"
  proof -
    have "distinct (map m_id (messages db1))"
      using apply_call_distinct [OF d,
          of "AddMessage fault1 utc1 utc1' now1 cid1 role1 content1 metadata1"] assms(1)
      by simp
    then have "distinct (map m_id (messages (run calls db1)))"
      by (rule run_distinct)
    then show ?thesis
      using apply_call_distinct [of "run calls db1"
          "AddMessage fault2 utc2 utc2' now2 cid2 role2 content2 metadata2"] assms(2)
      by simp
  qed
  moreover have "distinct (map m_id (messages (run calls' empty_db)))"
    by (rule run_distinct) (simp add: empty_db_def)
  ultimately show ?thesis
    using a add_message_returned_id [OF assms(1)] add_message_returned_id [OF assms(2)]
    by simp
qed

theorem message_ids_increase_witness:
  "add_message None noon noon noon one_conversation ''c1'' ''human'' ''hi'' None =
     (Inr \<lparr>md_id = 1, md_conversation_id = ''c1'', md_role = ''human'', md_content = ''hi'',
            md_timestamp = isoformat noon, md_metadata = JObject []\<rparr>, one_message) \<and>
   run [DeleteConversation None ''c1''] one_message = one_message\<lparr>conversations := []\<rparr> \<and>
   add_message None noon_later noon_later noon_later (one_message\<lparr>conversations := []\<rparr>)
       ''c2'' ''ai'' ''hello'' None =
     (Inr \<lparr>md_id = 2, md_conversation_id = ''c2'', md_role = ''ai'', md_content = ''hello'',
            md_timestamp = isoformat noon_later, md_metadata = JObject []\<rparr>,
      \<lparr>conversations = [],
       messages = messages one_message @
         [\<lparr>m_id = 2, m_conversation_id = ''c2'', m_role = ''ai'', m_content = ''hello'',
           m_timestamp = current_timestamp noon_later, m_metadata = Some ''{}''\<rparr>],
       sqlite_sequence = 2\<rparr>) \<and>
   (1 :: int) < 2 \<and>
   distinct (map m_id (messages one_message @
         [\<lparr>m_id = 2, m_conversation_id = ''c2'', m_role = ''ai'', m_content = ''hello'',
           m_timestamp = current_timestamp noon_later, m_metadata = Some ''{}''\<rparr>]))"
proof -
  have a1: "add_message None noon noon noon one_conversation ''c1'' ''human'' ''hi'' None =
     (Inr \<lparr>md_id = 1, md_conversation_id = ''c1'', md_role = ''human'', md_content = ''hi'',
            md_timestamp = isoformat noon, md_metadata = JObject []\<rparr>, one_message)"
    by (simp add: one_message_def)
      (simp add: add_message_result next_rowid_one_conversation int64_max_def or_empty_def)
  have r: "run [DeleteConversation None ''c1''] one_message = one_message\<lparr>conversations := []\<rparr>"
    by (simp add: run_def delete_conversation_def engine_defs one_message_eq)
  have a2: "add_message None noon_later noon_later noon_later
       (run [DeleteConversation None ''c1''] one_message) ''c2'' ''ai'' ''hello'' None =
     (Inr \<lparr>md_id = 2, md_conversation_id = ''c2'', md_role = ''ai'', md_content = ''hello'',
            md_timestamp = isoformat noon_later, md_metadata = JObject []\<rparr>,
      \<lparr>conversations = [],
       messages = messages one_message @
         [\<lparr>m_id = 2, m_conversation_id = ''c2'', m_role = ''ai'', m_content = ''hello'',
           m_timestamp = current_timestamp noon_later, m_metadata = Some ''{}''\<rparr>],
       sqlite_sequence = 2\<rparr>)"
    unfolding r
    by (simp add: add_message_result next_rowid_def int64_max_def or_empty_def
        dumps_empty_document one_message_eq)
  have d: "distinct (map m_id (messages one_conversation))"
    by (simp add: one_conversation_eq)
  from message_ids_increase [OF a1 a2, of "[]"] a1 a2 r d show ?thesis
    by simp
qed

section \<open>The JSON codec decodes what it encodes\<close>

subsection \<open>Strings\<close>






subsection \<open>Integers\<close>

















subsection \<open>Values\<close>


















section \<open>Creating a conversation and reading it back\<close>





end
